theory Spec2Isabelle
  imports Main
begin

section \<open>Python values used by the scraper\<close>

text \<open>
  The exceptions the modelled code can raise. \<open>SystemExit\<close> is the \<^verbatim>\<open>exit()\<close> of
  \<^verbatim>\<open>create_form_spreadsheet\<close>; \<open>DatabaseError\<close> is any statement the database rejects.
\<close>

datatype error =
    KeyError string
  | TypeError
  | AttributeError string
  | IndexError
  | ValueError
  | SystemExit
  | DatabaseError

subsection \<open>Strings\<close>

text \<open>
  A Python \<^verbatim>\<open>str\<close> is a \<open>string\<close>, one \<open>char\<close> per character (code points below
  256). \<open>replace_str old new s\<close> is \<^verbatim>\<open>s.replace(old, new)\<close>: occurrences are found from
  the left and do not overlap.
\<close>

fun replace_str :: "string \<Rightarrow> string \<Rightarrow> string \<Rightarrow> string" where
  "replace_str old new [] = (if old = [] then new else [])"
| "replace_str old new (c # cs) =
     (if old = [] then new @ c # replace_str old new cs
      else if take (length old) (c # cs) = old
      then new @ replace_str old new (drop (length old) (c # cs))
      else c # replace_str old new cs)"

text \<open>\<^verbatim>\<open>s.split(sep)\<close> for a one-character separator: never the empty list.\<close>

fun split_str :: "char \<Rightarrow> string \<Rightarrow> string list" where
  "split_str sep [] = [[]]"
| "split_str sep (c # cs) =
     (if c = sep then [] # split_str sep cs
      else (case split_str sep cs of
              [] \<Rightarrow> [[c]]
            | w # ws \<Rightarrow> (c # w) # ws))"

text \<open>\<^verbatim>\<open>sep.join(words)\<close>.\<close>

fun join_str :: "string \<Rightarrow> string list \<Rightarrow> string" where
  "join_str sep [] = []"
| "join_str sep [w] = w"
| "join_str sep (w # v # ws) = w @ sep @ join_str sep (v # ws)"

text \<open>\<^verbatim>\<open>s.lower()\<close> on code points below 256.\<close>

definition lower_char :: "char \<Rightarrow> char" where
  "lower_char c =
     (let n = (of_char c :: nat)
      in if (65 \<le> n \<and> n \<le> 90) \<or> (192 \<le> n \<and> n \<le> 222 \<and> n \<noteq> 215)
         then char_of (n + 32) else c)"

definition lower :: "string \<Rightarrow> string" where
  "lower s = map lower_char s"

text \<open>\<^verbatim>\<open>str(n)\<close> for a counter \<open>n \<ge> 0\<close>.\<close>

function str_of_nat :: "nat \<Rightarrow> string" where
  "str_of_nat n =
     (if n < 10 then [char_of (48 + n)]
      else str_of_nat (n div 10) @ [char_of (48 + n mod 10)])"
  by pat_completeness auto
termination
  by (relation "measure id") auto

declare str_of_nat.simps [simp del]

lemma str_of_nat_length_pos: "1 \<le> length (str_of_nat n)"
  by (subst str_of_nat.simps) simp

lemma str_of_nat_length_ge2: "10 \<le> n \<Longrightarrow> 2 \<le> length (str_of_nat n)"
  using str_of_nat_length_pos [of "n div 10"] by (subst str_of_nat.simps) simp

lemma str_of_nat_length_digit: "n < 10 \<Longrightarrow> length (str_of_nat n) = 1"
  by (subst str_of_nat.simps) simp

text \<open>\<^verbatim>\<open>sub in s\<close>.\<close>

fun contains :: "string \<Rightarrow> string \<Rightarrow> bool" where
  "contains sub [] = (sub = [])"
| "contains sub (c # cs) = (take (length sub) (c # cs) = sub \<or> contains sub cs)"

section \<open>Sheet names (\<^verbatim>\<open>strip_sheet_name\<close>, \<^verbatim>\<open>create_form_spreadsheet\<close>)\<close>

text \<open>
  The body of the \<^verbatim>\<open>for i in range(0, len(words)-1)\<close> loop of \<^verbatim>\<open>strip_sheet_name\<close>: the
  first word longer than one character, the last word excepted, is cut to its first
  character.
\<close>

fun chop_first_word :: "string list \<Rightarrow> string list" where
  "chop_first_word [] = []"
| "chop_first_word [w] = [w]"
| "chop_first_word (w # v # ws) =
     (if length w > 1 then [hd w] # v # ws else w # chop_first_word (v # ws))"

text \<open>One pass of the \<^verbatim>\<open>while\<close> body: split on \<open>_\<close>, cut one word, join.\<close>

definition chop_pass :: "string \<Rightarrow> string" where
  "chop_pass sheet_name = join_str ''_'' (chop_first_word (split_str CHR ''_'' sheet_name))"

lemma split_str_not_Nil: "split_str sep s \<noteq> []"
  by (induction s) (auto split: list.splits)

lemma join_str_Cons_Cons: "join_str sep ((c # w) # ws) = c # join_str sep (w # ws)"
  by (cases ws) auto

lemma join_split_str: "join_str [sep] (split_str sep s) = s"
proof (induction s)
  case Nil
  show ?case by simp
next
  case (Cons c cs)
  obtain w ws where sp: "split_str sep cs = w # ws"
    using split_str_not_Nil [of sep cs] by (cases "split_str sep cs") auto
  show ?case
  proof (cases "c = sep")
    case True
    with sp Cons show ?thesis by simp
  next
    case False
    with sp Cons show ?thesis by (simp add: join_str_Cons_Cons)
  qed
qed

lemma chop_first_word_Nil: "chop_first_word ws = [] \<longleftrightarrow> ws = []"
  by (induction ws rule: chop_first_word.induct) auto

lemma chop_first_word_shorter:
  "chop_first_word ws = ws \<or>
   length (join_str sep (chop_first_word ws)) < length (join_str sep ws)"
proof (induction ws rule: chop_first_word.induct)
  case 1
  show ?case by simp
next
  case (2 w)
  show ?case by simp
next
  case (3 w v ws)
  show ?case
  proof (cases "length w > 1")
    case True
    then show ?thesis by simp
  next
    case False
    obtain u us where ch: "chop_first_word (v # ws) = u # us"
      using chop_first_word_Nil [of "v # ws"] by (cases "chop_first_word (v # ws)") auto
    from False 3 ch show ?thesis by auto
  qed
qed

lemma chop_pass_shorter: "chop_pass s = s \<or> length (chop_pass s) < length s"
proof -
  let ?ws = "split_str CHR ''_'' s"
  have js: "join_str ''_'' ?ws = s" by (rule join_split_str)
  from chop_first_word_shorter [of ?ws "''_''"] show ?thesis
    unfolding chop_pass_def using js by auto
qed

text \<open>
  The \<^verbatim>\<open>while len(sheet_name) > 31 and sheet_name != last_name\<close> loop; \<open>last_name\<close> starts
  as \<^verbatim>\<open>None\<close>.
\<close>

function chop_loop :: "string option \<Rightarrow> string \<Rightarrow> string" where
  "chop_loop last_name sheet_name =
     (if length sheet_name > 31 \<and> Some sheet_name \<noteq> last_name
      then chop_loop (Some sheet_name) (chop_pass sheet_name)
      else sheet_name)"
  by pat_completeness auto
termination
proof (relation "measures [\<lambda>(l, s). length s, \<lambda>(l, s). if l = Some s then 0 else 1]")
  show "wf (measures [\<lambda>(l, s). length s, \<lambda>(l, s). if l = Some s then 0 else (1::nat)])"
    by simp
next
  fix last_name :: "string option" and sheet_name :: string
  assume "31 < length sheet_name \<and> Some sheet_name \<noteq> last_name"
  then show "((Some sheet_name, chop_pass sheet_name), (last_name, sheet_name))
      \<in> measures [\<lambda>(l, s). length s, \<lambda>(l, s). if l = Some s then 0 else 1]"
    using chop_pass_shorter [of sheet_name] by auto
qed

declare chop_loop.simps [simp del]

text \<open>The four replacements at the head of \<^verbatim>\<open>strip_sheet_name\<close>, in the source's order.\<close>

definition replace_words :: "string \<Rightarrow> string" where
  "replace_words sheet_name =
     replace_str ''change'' ''chng''
       (replace_str ''enrollment'' ''enroll''
          (replace_str '')'' ''''
             (replace_str ''('' ''''
                (replace_str ''and'' ''&'' sheet_name))))"

definition strip_sheet_name :: "string \<Rightarrow> string" where
  "strip_sheet_name sheet_name = chop_loop None (replace_words sheet_name)"

text \<open>
  Lines 404-414 of \<^verbatim>\<open>create_form_spreadsheet\<close>: the candidate \<open>sheet_name\<close> (parent prefix
  and form name, parentheses and dashes already removed) and the bare \<open>form_name\<close> it
  falls back to. \<^verbatim>\<open>exit()\<close> is \<open>Inl SystemExit\<close>.
\<close>

definition compress :: "string \<Rightarrow> string \<Rightarrow> error + string" where
  "compress sheet_name form_name =
     (if length sheet_name > 31 then
        (let sheet_name1 = strip_sheet_name sheet_name in
         if length sheet_name1 > 31 then
           (let sheet_name2 = strip_sheet_name form_name in
            if length sheet_name2 > 31 then Inl SystemExit else Inr sheet_name2)
         else Inr sheet_name1)
      else Inr sheet_name)"


text \<open>
  Lines 416-420: while the name is in \<^verbatim>\<open>self.database_table_names\<close>, the counter is
  incremented and the last character of the name (\<^verbatim>\<open>sheet_name[:-1]\<close>) is replaced by the
  counter's decimal form. The loop ends: up to 9 the counter grows and the name keeps its
  length, from 10 on every pass makes the name longer, and the list is finite.
\<close>

function rename_loop :: "string list \<Rightarrow> nat \<Rightarrow> string \<Rightarrow> string" where
  "rename_loop database_table_names current_edition sheet_name =
     (if sheet_name \<in> set database_table_names
      then rename_loop database_table_names (current_edition + 1)
             (butlast sheet_name @ str_of_nat (current_edition + 1))
      else sheet_name)"
  by pat_completeness auto
termination
proof (relation "measure (\<lambda>(names, k, s).
          (9 - k) + (Suc (sum_list (map length names)) - length s))")
  show "wf (measure (\<lambda>(names, k, s).
          (9 - k) + (Suc (sum_list (map length names)) - length s)))"
    by simp
next
  fix database_table_names :: "string list" and current_edition :: nat and sheet_name :: string
  assume mem: "sheet_name \<in> set database_table_names"
  let ?L = "sum_list (map length database_table_names)"
  let ?s' = "butlast sheet_name @ str_of_nat (current_edition + 1)"
  have le: "length sheet_name \<le> ?L"
    using mem by (simp add: member_le_sum_list)
  have "(9 - (current_edition + 1)) + (Suc ?L - length ?s')
        < (9 - current_edition) + (Suc ?L - length sheet_name)"
  proof (cases "current_edition < 9")
    case True
    then have "length (str_of_nat (current_edition + 1)) = 1"
      by (simp add: str_of_nat_length_digit)
    then have "length sheet_name \<le> length ?s'" by simp
    with True show ?thesis by simp
  next
    case False
    then have "2 \<le> length (str_of_nat (current_edition + 1))"
      by (simp add: str_of_nat_length_ge2)
    then have "length sheet_name < length ?s'" by simp
    with False le show ?thesis by simp
  qed
  then show "((database_table_names, current_edition + 1, ?s'),
              (database_table_names, current_edition, sheet_name))
      \<in> measure (\<lambda>(names, k, s).
          (9 - k) + (Suc (sum_list (map length names)) - length s))"
    by simp
qed

declare rename_loop.simps [simp del]

section \<open>Question trees\<close>

text \<open>
  A node of the form tree is the dictionary \<^verbatim>\<open>get_all_forms\<close> builds for a form
  (\<^verbatim>\<open>form_obj\<close>) or for a question (\<^verbatim>\<open>new_question\<close>). The scalar entries are a record;
  the three child lists are the arguments of \<open>Node\<close>. An entry that the dictionary
  literal always sets and that may hold \<^verbatim>\<open>None\<close> is a \<open>string option\<close>. An entry that
  is only set when its tag occurs in the document has one more \<open>option\<close> outside (or
  is a plain \<open>option\<close> when it is never \<^verbatim>\<open>None\<close>): \<open>None\<close> there is a missing key, and
  reading it raises \<open>KeyError\<close>. The entries \<^verbatim>\<open>case\<close>, \<^verbatim>\<open>parent\<close> and \<^verbatim>\<open>members\<close> are never
  read and are left out.
\<close>

record question_info =
  q_group :: bool
  q_group_member :: "string option"
  q_loop_member :: "string option"
  q_value :: "string option"
  q_text :: "string option"
  q_calculation :: "string option"
  q_id :: "string option"
  q_type :: "string option option"
  q_name :: "string option option"
  q_xmlns :: "string option option"

datatype node =
  Node (info: question_info) (groups: "node list") (loops: "node list") (questions: "node list")

text \<open>
  \<^verbatim>\<open>find_parent\<close>: the node itself, then its groups, then its loops, depth first; the
  first node whose \<^verbatim>\<open>value\<close> equals the name wins.
\<close>

fun find_parent :: "node \<Rightarrow> string option \<Rightarrow> node option"
  and find_parent_list :: "node list \<Rightarrow> string option \<Rightarrow> node option" where
  "find_parent (Node i gs ls qs) parent_name =
     (if q_value i = parent_name then Some (Node i gs ls qs)
      else (case find_parent_list gs parent_name of
              Some obj \<Rightarrow> Some obj
            | None \<Rightarrow> find_parent_list ls parent_name))"
| "find_parent_list [] parent_name = None"
| "find_parent_list (x # xs) parent_name =
     (case find_parent x parent_name of
        Some obj \<Rightarrow> Some obj
      | None \<Rightarrow> find_parent_list xs parent_name)"

text \<open>
  \<^verbatim>\<open>find_parent\<close> returns a reference and the caller appends to the lists of the node
  it points to. In the model the tree is a value, so the in-place change \<open>f\<close> is applied
  at the node \<^verbatim>\<open>find_parent\<close> finds, following the same search order; \<open>None\<close> when
  there is no such node.
\<close>

fun update_parent :: "(node \<Rightarrow> node) \<Rightarrow> string option \<Rightarrow> node \<Rightarrow> node option"
  and update_parent_list :: "(node \<Rightarrow> node) \<Rightarrow> string option \<Rightarrow> node list \<Rightarrow> node list option" where
  "update_parent f parent_name (Node i gs ls qs) =
     (if q_value i = parent_name then Some (f (Node i gs ls qs))
      else (case update_parent_list f parent_name gs of
              Some gs' \<Rightarrow> Some (Node i gs' ls qs)
            | None \<Rightarrow>
               (case update_parent_list f parent_name ls of
                  Some ls' \<Rightarrow> Some (Node i gs ls' qs)
                | None \<Rightarrow> None)))"
| "update_parent_list f parent_name [] = None"
| "update_parent_list f parent_name (x # xs) =
     (case update_parent f parent_name x of
        Some x' \<Rightarrow> Some (x' # xs)
      | None \<Rightarrow> map_option ((#) x) (update_parent_list f parent_name xs))"

text \<open>
  Python truth of a string-or-\<^verbatim>\<open>None\<close> value, as in \<^verbatim>\<open>if new_question['group_member']:\<close>.
\<close>

definition truthy :: "string option \<Rightarrow> bool" where
  "truthy v = (case v of None \<Rightarrow> False | Some s \<Rightarrow> s \<noteq> [])"

text \<open>
  Lines 239-256 of \<^verbatim>\<open>get_all_forms\<close>: the name of the parent to look for.
  \<^verbatim>\<open>parent_name\<close> starts as \<^verbatim>\<open>None\<close> and is only assigned under \<^verbatim>\<open>if group_name:\<close>.
\<close>

definition resolve_parent_name :: "question_info \<Rightarrow> string option" where
  "resolve_parent_name new_question =
     (let group_name = (if truthy (q_group_member new_question)
                        then q_group_member new_question else None);
          loop_name = (if truthy (q_loop_member new_question)
                       then q_loop_member new_question else None)
      in case group_name of
           None \<Rightarrow> None
         | Some g \<Rightarrow>
            (case loop_name of
               None \<Rightarrow> Some g
             | Some l \<Rightarrow>
                if contains l g \<and> length g > length l then Some g else Some l))"

text \<open>
  Lines 264-275: three independent \<^verbatim>\<open>if\<close> statements, each appending the question to
  one list of the parent. \<open>t\<close> is the value of \<^verbatim>\<open>new_question['type']\<close>.
\<close>

definition place_question :: "question_info \<Rightarrow> string option \<Rightarrow> node \<Rightarrow> node" where
  "place_question new_question t parent_group =
     (let q = Node new_question [] [] [];
          p1 = (if q_group new_question \<and> t \<noteq> Some ''Repeat''
                then Node (info parent_group) (groups parent_group @ [q])
                       (loops parent_group) (questions parent_group)
                else parent_group);
          p2 = (if t = Some ''Repeat''
                then Node (info p1) (groups p1) (loops p1 @ [q]) (questions p1)
                else p1)
      in if \<not> q_group new_question
         then Node (info p2) (groups p2) (loops p2) (questions p2 @ [q])
         else p2)"

text \<open>
  One pass of the \<^verbatim>\<open>for question in p\<close> loop, after the question's properties have
  been read: the parent is looked up, a question of type \<^verbatim>\<open>Trigger\<close> is skipped, any other
  is placed. Appending to the lists of a parent that was not found (\<^verbatim>\<open>None\<close>) raises
  \<open>TypeError\<close>. A question that lands in two lists is one shared object in Python and
  two equal copies here; the copy in \<^verbatim>\<open>questions\<close> is never searched by \<^verbatim>\<open>find_parent\<close>
  and only its scalar entries are read later.
\<close>

definition add_question :: "node \<Rightarrow> question_info \<Rightarrow> error + node" where
  "add_question form_obj new_question =
     (let parent_name = resolve_parent_name new_question
      in case q_type new_question of
           None \<Rightarrow> Inl (KeyError ''type'')
         | Some t \<Rightarrow>
            if t = Some ''Trigger'' then Inr form_obj
            else (case update_parent (place_question new_question t) parent_name form_obj of
                    None \<Rightarrow> Inl TypeError
                  | Some form_obj' \<Rightarrow> Inr form_obj'))"

fun add_questions :: "node \<Rightarrow> question_info list \<Rightarrow> error + node" where
  "add_questions form_obj [] = Inr form_obj"
| "add_questions form_obj (q # qs) =
     (case add_question form_obj q of
        Inl e \<Rightarrow> Inl e
      | Inr form_obj' \<Rightarrow> add_questions form_obj' qs)"

section \<open>Flattening\<close>

text \<open>
  An entry of \<^verbatim>\<open>spreadsheet_relationships['columns']\<close>, and the dictionary
  \<^verbatim>\<open>spreadsheet_relationships\<close> itself (the table specification). The workbook that
  \<^verbatim>\<open>xlsxwriter\<close> writes beside it is not modelled.
\<close>

record column =
  question_id :: string
  question_text :: "string option"
  question_type :: "string option"
  database_column :: string
  calculation :: "string option"

datatype sheet =
  Sheet (form_name: string) (spreadsheet_file: string) (table_target: string)
        (columns: "column list") (children: "sheet list")

text \<open>
  The fixed columns every table starts with: nine for a form, eight for a loop.
\<close>

definition auto_column :: "string \<Rightarrow> string \<Rightarrow> column" where
  "auto_column qid col =
     \<lparr>question_id = qid, question_text = Some '''', question_type = Some ''Hidden'',
      database_column = col, calculation = Some ''auto-generated''\<rparr>"

definition fixed_columns :: "bool \<Rightarrow> column list" where
  "fixed_columns is_loop =
     [auto_column ''id'' ''id'',
      auto_column ''recieved_on'' ''received_on'',
      auto_column ''case_id'' ''case_id'',
      auto_column ''username'' ''meta_username'',
      auto_column ''app_id'' ''meta_app_id'',
      auto_column ''device_id'' ''meta_device_id'',
      auto_column ''gps_location'' ''meta_gps''] @
     (if \<not> is_loop
      then [auto_column ''started_time'' ''meta_started_time'',
            auto_column ''completed_time'' ''meta_completed_time'']
      else [auto_column ''parent_form_id'' ''parent_form_id''])"

text \<open>
  \<^verbatim>\<open>db_column_name\<close>: the question id in lower case, \<open>/\<close> to \<open>.\<close>, \<open>-\<close> to \<open>_\<close>, then the
  part after the last dot.
\<close>

definition db_column_name :: "string \<Rightarrow> string" where
  "db_column_name qid =
     (let n = replace_str ''-'' ''_'' (replace_str ''/'' ''.'' (lower qid))
      in if CHR ''.'' \<in> set n then last (split_str CHR ''.'' n) else n)"

text \<open>
  The column of one plain question. \<^verbatim>\<open>field['id']\<close> is read first, then \<^verbatim>\<open>field['type']\<close>.
\<close>

definition question_column :: "question_info \<Rightarrow> error + column" where
  "question_column field =
     (case q_id field of
        None \<Rightarrow> Inl (KeyError ''id'')
      | Some qid \<Rightarrow>
         (case q_type field of
            None \<Rightarrow> Inl (KeyError ''type'')
          | Some t \<Rightarrow>
             Inr \<lparr>question_id = qid, question_text = q_text field, question_type = t,
                  database_column = db_column_name qid,
                  calculation = q_calculation field\<rparr>))"

fun question_columns :: "node list \<Rightarrow> error + column list" where
  "question_columns [] = Inr []"
| "question_columns (q # qs) =
     (case question_column (info q) of
        Inl e \<Rightarrow> Inl e
      | Inr c \<Rightarrow>
         (case question_columns qs of
            Inl e \<Rightarrow> Inl e
          | Inr cs \<Rightarrow> Inr (c # cs)))"

text \<open>
  \<^verbatim>\<open>get_group_questions\<close>: the questions of a group, then those of its groups, then
  its loops. For a loop the source reads \<^verbatim>\<open>loop['id']\<close> and then calls
  \<^verbatim>\<open>self.generate_spreadsheets\<close>, a method the class does not define, which raises
  \<open>AttributeError\<close>. The second function is the \<^verbatim>\<open>for group in ...\<close> loop around the call.
\<close>

fun get_group_questions :: "node \<Rightarrow> bool \<Rightarrow> error + (column list \<times> sheet list)"
  and get_groups_questions :: "node list \<Rightarrow> bool \<Rightarrow> error + (column list \<times> sheet list)" where
  "get_group_questions (Node i gs ls qs) is_loop =
     (case question_columns qs of
        Inl e \<Rightarrow> Inl e
      | Inr question_list \<Rightarrow>
         (case get_groups_questions gs is_loop of
            Inl e \<Rightarrow> Inl e
          | Inr (group_questions, kids) \<Rightarrow>
             (case ls of
                [] \<Rightarrow> Inr (question_list @ group_questions, kids)
              | loop # _ \<Rightarrow>
                 (case q_id (info loop) of
                    None \<Rightarrow> Inl (KeyError ''id'')
                  | Some _ \<Rightarrow> Inl (AttributeError ''generate_spreadsheets'')))))"
| "get_groups_questions [] is_loop = Inr ([], [])"
| "get_groups_questions (g # gs) is_loop =
     (case get_group_questions g is_loop of
        Inl e \<Rightarrow> Inl e
      | Inr (qs1, ch1) \<Rightarrow>
         (case get_groups_questions gs is_loop of
            Inl e \<Rightarrow> Inl e
          | Inr (qs2, ch2) \<Rightarrow> Inr (qs1 @ qs2, ch1 @ ch2)))"

text \<open>
  \<^verbatim>\<open>create_form_spreadsheet\<close>, with \<^verbatim>\<open>self.database_table_names\<close> passed in and returned.
\<close>

definition create_form_spreadsheet ::
  "string list \<Rightarrow> node \<Rightarrow> bool \<Rightarrow> string \<Rightarrow> error + (sheet \<times> string list)" where
  "create_form_spreadsheet database_table_names form_information is_loop parent_name =
     (case q_name (info form_information) of
        None \<Rightarrow> Inl (KeyError ''name'')
      | Some None \<Rightarrow> Inl (AttributeError ''replace'')
      | Some (Some name) \<Rightarrow>
         (let form_name = lower (replace_str ''/'' ''_'' (replace_str '' '' ''_'' name));
              parent_name1 = (if parent_name \<noteq> [] then parent_name @ ''_'' else parent_name);
              sheet_name0 = replace_str ''-'' '''' (replace_str '')'' ''''
                              (replace_str ''('' '''' (parent_name1 @ form_name)))
          in case compress sheet_name0 form_name of
               Inl e \<Rightarrow> Inl e
             | Inr sheet_name1 \<Rightarrow>
                (let sheet_name = rename_loop database_table_names 0 sheet_name1;
                     names = database_table_names @ [sheet_name]
                 in if is_loop \<and> q_id (info form_information) = None
                    then Inl (KeyError ''id'')
                    else (case q_xmlns (info form_information) of
                            None \<Rightarrow> Inl (KeyError ''xmlns'')
                          | Some _ \<Rightarrow>
                             (case question_columns (questions form_information) of
                                Inl e \<Rightarrow> Inl e
                              | Inr qcols \<Rightarrow>
                                 (case get_groups_questions (groups form_information) is_loop of
                                    Inl e \<Rightarrow> Inl e
                                  | Inr (gcols, gchildren) \<Rightarrow>
                                     Inr (Sheet name (form_name @ ''.xlsx'') sheet_name
                                            (fixed_columns is_loop @ qcols @ gcols) gchildren,
                                          names)))))))"

text \<open>
  \<^verbatim>\<open>generate_form_spreadsheet\<close>: the table of the node, then one child table per loop of
  the node, each loop first given the form's \<^verbatim>\<open>xmlns\<close> and its own id as \<^verbatim>\<open>name\<close>.
\<close>

fun generate_form_spreadsheet ::
      "string list \<Rightarrow> node \<Rightarrow> bool \<Rightarrow> string \<Rightarrow> error + (sheet \<times> string list)"
  and generate_loop_sheets ::
      "string list \<Rightarrow> string option option \<Rightarrow> string \<Rightarrow> node list \<Rightarrow> error + (sheet list \<times> string list)" where
  "generate_form_spreadsheet names (Node i gs ls qs) is_loop parent_name =
     (case create_form_spreadsheet names (Node i gs ls qs) is_loop parent_name of
        Inl e \<Rightarrow> Inl e
      | Inr (rel, names1) \<Rightarrow>
         (case generate_loop_sheets names1 (q_xmlns i) (table_target rel) ls of
            Inl e \<Rightarrow> Inl e
          | Inr (sheet_children, names2) \<Rightarrow>
             Inr (Sheet (form_name rel) (spreadsheet_file rel) (table_target rel)
                    (columns rel) (children rel @ sheet_children), names2)))"
| "generate_loop_sheets names xmlns target [] = Inr ([], names)"
| "generate_loop_sheets names xmlns target (Node i gs ls qs # rest) =
     (case q_id i of
        None \<Rightarrow> Inl (KeyError ''id'')
      | Some loop_id \<Rightarrow>
         (case generate_form_spreadsheet names
                 (Node (i\<lparr>q_xmlns := xmlns, q_name := Some (Some loop_id)\<rparr>) gs ls qs)
                 True target of
            Inl e \<Rightarrow> Inl e
          | Inr (sheet_child, names1) \<Rightarrow>
             (case generate_loop_sheets names1 xmlns target rest of
                Inl e \<Rightarrow> Inl e
              | Inr (sheet_children, names2) \<Rightarrow> Inr (sheet_child # sheet_children, names2))))"

text \<open>
  The dictionary literals a question and a form start from (lines 189-201 and 154-165).
\<close>

definition new_question :: question_info where
  "new_question =
     \<lparr>q_group = False, q_group_member = None, q_loop_member = None, q_value = None,
      q_text = None, q_calculation = None, q_id = None, q_type = None, q_name = None,
      q_xmlns = None\<rparr>"

definition form_obj :: node where
  "form_obj = Node new_question [] [] []"

section \<open>Case sheets (\<^verbatim>\<open>generate_case_spreadsheet\<close>)\<close>

text \<open>
  An entry of \<^verbatim>\<open>ALL_CASES.json\<close> as \<^verbatim>\<open>get_all_cases\<close> builds it, and the same entry once
  \<^verbatim>\<open>generate_case_model\<close> has stored the table name in it.
\<close>

record case_information =
  case_name :: string
  properties :: "string list"

record case_data = case_information +
  case_table :: string

text \<open>
  Lines 692-712: the sheet name of a case. The fallback strips the case name with its
  underscores removed; failure is a \<open>ValueError\<close>.
\<close>

definition case_sheet_name :: "string \<Rightarrow> error + string" where
  "case_sheet_name name =
     (let case_name = ''case_'' @ lower name;
          sheet_name = replace_str ''-'' '''' (replace_str '')'' ''''
                         (replace_str ''('' '''' case_name))
      in if length sheet_name > 31 then
           (let sheet_name1 = strip_sheet_name sheet_name in
            if length sheet_name1 > 31 then
              (let sheet_name2 = strip_sheet_name (replace_str ''_'' '''' case_name) in
               if length sheet_name2 > 31 then Inl ValueError else Inr sheet_name2)
            else Inr sheet_name1)
         else Inr sheet_name)"

text \<open>
  What \<^verbatim>\<open>generate_case_spreadsheet\<close> does to \<^verbatim>\<open>self.database_table_names\<close>: line 715
  appends the sheet name as it is. The workbook, the \<^verbatim>\<open>CaseControl\<close> row and the
  generated model are not modelled here. The second function is the loop of \<^verbatim>\<open>handle\<close>
  over \<^verbatim>\<open>self.cases_as_json\<close>.
\<close>

definition generate_case_spreadsheet ::
  "string list \<Rightarrow> case_information \<Rightarrow> error + string list" where
  "generate_case_spreadsheet database_table_names case_information =
     (case case_sheet_name (case_name case_information) of
        Inl e \<Rightarrow> Inl e
      | Inr sheet_name \<Rightarrow> Inr (database_table_names @ [sheet_name]))"

fun generate_case_spreadsheets ::
  "string list \<Rightarrow> case_information list \<Rightarrow> error + string list" where
  "generate_case_spreadsheets names [] = Inr names"
| "generate_case_spreadsheets names (case_obj # cases_as_json) =
     (case generate_case_spreadsheet names case_obj of
        Inl e \<Rightarrow> Inl e
      | Inr names1 \<Rightarrow> generate_case_spreadsheets names1 cases_as_json)"

section \<open>Storage (\<^verbatim>\<open>utils.py\<close>)\<close>

text \<open>
  The database as the functions of \<^verbatim>\<open>utils.py\<close> see it: for each table name the columns
  of the table, in order, each with its type. The model takes table and column names as
  plain identifiers and \<^verbatim>\<open>settings.MAX_CHARVAR_LENGTH\<close> as a parameter, a number.
\<close>

datatype coltype = VarChar nat | Text | Boolean | Timestamp

type_synonym table = "(string \<times> coltype) list"

type_synonym database = "string \<Rightarrow> table option"

text \<open>The statements that change a table.\<close>

datatype statement =
    CreateTable string table
  | AddColumn string string coltype
  | AlterIdType string nat
  | DropColumn string string

text \<open>
  A \<^verbatim>\<open>psycopg2\<close> connection: \<open>live\<close> is what the open transaction sees, \<open>saved\<close> what has
  been committed, \<open>issued\<close> the statements the database has executed for it. A function
  that raises leaves the connection behind uncommitted, so the database stays at \<open>saved\<close>.
\<close>

record connection =
  live :: database
  saved :: database
  issued :: "statement list"

definition connect :: "database \<Rightarrow> connection" where
  "connect db = \<lparr>live = db, saved = db, issued = []\<rparr>"

definition commit :: "connection \<Rightarrow> connection" where
  "commit c = c\<lparr>saved := live c\<rparr>"

definition ran :: "statement \<Rightarrow> string \<Rightarrow> table \<Rightarrow> connection \<Rightarrow> connection" where
  "ran stmt t cols c = c\<lparr>live := (live c)(t \<mapsto> cols), issued := issued c @ [stmt]\<rparr>"

text \<open>\<^verbatim>\<open>ALTER COLUMN id TYPE VARCHAR(n)\<close> on the columns of a table.\<close>

definition alter_id :: "nat \<Rightarrow> table \<Rightarrow> table" where
  "alter_id n cols = map (\<lambda>(k, ty). if k = ''id'' then (k, VarChar n) else (k, ty)) cols"

text \<open>
  \<^verbatim>\<open>cursor.execute\<close> on a statement. The database rejects a table that exists or lists a
  column twice, and a column added twice or altered or dropped where there is none.
\<close>

fun execute :: "statement \<Rightarrow> connection \<Rightarrow> (error \<times> connection) + connection" where
  "execute (CreateTable t cols) c =
     (if live c t \<noteq> None \<or> \<not> distinct (map fst cols) then Inl (DatabaseError, c)
      else Inr (ran (CreateTable t cols) t cols c))"
| "execute (AddColumn t col ty) c =
     (case live c t of
        None \<Rightarrow> Inl (DatabaseError, c)
      | Some cols \<Rightarrow>
         if col \<in> set (map fst cols) then Inl (DatabaseError, c)
         else Inr (ran (AddColumn t col ty) t (cols @ [(col, ty)]) c))"
| "execute (AlterIdType t n) c =
     (case live c t of
        None \<Rightarrow> Inl (DatabaseError, c)
      | Some cols \<Rightarrow>
         if ''id'' \<notin> set (map fst cols) then Inl (DatabaseError, c)
         else Inr (ran (AlterIdType t n) t (alter_id n cols) c))"
| "execute (DropColumn t col) c =
     (case live c t of
        None \<Rightarrow> Inl (DatabaseError, c)
      | Some cols \<Rightarrow>
         if col \<notin> set (map fst cols) then Inl (DatabaseError, c)
         else Inr (ran (DropColumn t col) t (filter (\<lambda>(k, ty). k \<noteq> col) cols) c))"

text \<open>
  What a call leaves behind: the exception if it raised, the committed database, and the
  statements that were executed.
\<close>

fun finish :: "(error \<times> connection) + connection \<Rightarrow> error option \<times> database \<times> statement list" where
  "finish (Inl (e, c)) = (Some e, saved c, issued c)"
| "finish (Inr c) = (None, saved c, issued c)"

text \<open>The \<^verbatim>\<open>pg_attribute\<close> query for one column: its type if the column exists.\<close>

definition column_type :: "connection \<Rightarrow> string \<Rightarrow> string \<Rightarrow> coltype option" where
  "column_type c t col = (case live c t of None \<Rightarrow> None | Some cols \<Rightarrow> map_of cols col)"

subsection \<open>Form tables\<close>

text \<open>
  \<^verbatim>\<open>create_table\<close>: \<^verbatim>\<open>id\<close> and \<^verbatim>\<open>imported_on\<close>, then \<^verbatim>\<open>columns[1:-1]\<close> and \<^verbatim>\<open>columns[-1]\<close>
  as \<^verbatim>\<open>TEXT\<close>. Indexing the last element of an empty list raises \<open>IndexError\<close> before
  anything is sent.
\<close>

definition create_table :: "nat \<Rightarrow> sheet \<Rightarrow> connection \<Rightarrow> (error \<times> connection) + connection" where
  "create_table max_charvar_length form_data c =
     (case columns form_data of
        [] \<Rightarrow> Inl (IndexError, c)
      | col # cols \<Rightarrow>
         execute (CreateTable (table_target form_data)
                    ([(''id'', VarChar max_charvar_length), (''imported_on'', Timestamp)] @
                     map (\<lambda>column. (database_column column, Text)) (butlast cols) @
                     [(database_column (last (col # cols)), Text)])) c)"

definition confirm_table_schema ::
  "nat \<Rightarrow> sheet \<Rightarrow> database \<Rightarrow> error option \<times> database \<times> statement list" where
  "confirm_table_schema max_charvar_length form_data db =
     (let c = connect db
      in case live c (table_target form_data) of
           Some _ \<Rightarrow> finish (Inr c)
         | None \<Rightarrow>
            (case create_table max_charvar_length form_data c of
               Inl e \<Rightarrow> finish (Inl e)
             | Inr c1 \<Rightarrow> finish (Inr (commit c1))))"

text \<open>
  The body of the \<^verbatim>\<open>for column in form_data['columns']\<close> loop of \<^verbatim>\<open>confirm_table_columns\<close>,
  for the column named \<open>col\<close>. A column that exists: for \<^verbatim>\<open>id\<close> the declared length is
  read and compared with the configured one (\<^verbatim>\<open>None < n\<close> is a \<open>TypeError\<close> when the
  column is not a \<^verbatim>\<open>VARCHAR\<close>), and the column is widened when it is shorter; then the rows
  where the column differs from \<^verbatim>\<open>''\<close> are counted, a comparison the database rejects for
  a boolean or a timestamp. A column that does not exist is added as \<^verbatim>\<open>TEXT\<close> and the
  transaction is committed.
\<close>

definition sync_column ::
  "nat \<Rightarrow> string \<Rightarrow> string \<Rightarrow> connection \<Rightarrow> (error \<times> connection) + connection" where
  "sync_column max_charvar_length t col c =
     (case column_type c t col of
        Some ty \<Rightarrow>
         (case (if col = ''id''
                then (case ty of
                        VarChar max_length \<Rightarrow>
                         if max_length < max_charvar_length
                         then execute (AlterIdType t max_charvar_length) c
                         else Inr c
                      | _ \<Rightarrow> Inl (TypeError, c))
                else Inr c) of
            Inl e \<Rightarrow> Inl e
          | Inr c1 \<Rightarrow>
             if ty = Boolean \<or> ty = Timestamp then Inl (DatabaseError, c1)
             else Inr c1)
      | None \<Rightarrow>
         (case execute (AddColumn t col Text) c of
            Inl e \<Rightarrow> Inl e
          | Inr c1 \<Rightarrow> Inr (commit c1)))"

text \<open>
  The loop itself: each column of the specification is taken off
  \<^verbatim>\<open>existing_column_list\<close> (\<^verbatim>\<open>list.remove\<close> takes the first occurrence) and synchronised.
\<close>

fun sync_columns ::
  "nat \<Rightarrow> string \<Rightarrow> string list \<Rightarrow> string list \<Rightarrow> connection
     \<Rightarrow> (error \<times> connection) + (string list \<times> connection)" where
  "sync_columns m t [] existing_column_list c = Inr (existing_column_list, c)"
| "sync_columns m t (col # cols) existing_column_list c =
     (case sync_column m t col c of
        Inl e \<Rightarrow> Inl e
      | Inr c1 \<Rightarrow> sync_columns m t cols (remove1 col existing_column_list) c1)"

text \<open>The final loop: what is left of \<^verbatim>\<open>existing_column_list\<close> is dropped.\<close>

fun drop_columns :: "string \<Rightarrow> string list \<Rightarrow> connection \<Rightarrow> (error \<times> connection) + connection" where
  "drop_columns t [] c = Inr c"
| "drop_columns t (x # xs) c =
     (case execute (DropColumn t x) c of
        Inl e \<Rightarrow> Inl e
      | Inr c1 \<Rightarrow> drop_columns t xs c1)"

text \<open>
  \<^verbatim>\<open>confirm_table_columns\<close>: the live columns other than \<^verbatim>\<open>imported_on\<close> are listed, the
  specification's columns are synchronised, the rest is dropped, and the transaction
  is committed.
\<close>

definition confirm_table_columns ::
  "nat \<Rightarrow> sheet \<Rightarrow> database \<Rightarrow> error option \<times> database \<times> statement list" where
  "confirm_table_columns max_charvar_length form_data db =
     (let c = connect db;
          t = table_target form_data;
          existing_column_list =
            (case live c t of
               None \<Rightarrow> []
             | Some cols \<Rightarrow> filter (\<lambda>k. k \<noteq> ''imported_on'') (map fst cols))
      in case sync_columns max_charvar_length t (map database_column (columns form_data))
                existing_column_list c of
           Inl e \<Rightarrow> finish (Inl e)
         | Inr (legacy, c1) \<Rightarrow>
            (case drop_columns t legacy c1 of
               Inl e \<Rightarrow> finish (Inl e)
             | Inr c2 \<Rightarrow> finish (Inr (commit c2))))"

text \<open>
  One reconciliation of a form table, as \<^verbatim>\<open>generate_form_model\<close> runs it:
  \<^verbatim>\<open>confirm_table_schema\<close>, then \<^verbatim>\<open>confirm_table_columns\<close>, each on a connection of its own.
\<close>

definition reconcile ::
  "nat \<Rightarrow> sheet \<Rightarrow> database \<Rightarrow> error option \<times> database \<times> statement list" where
  "reconcile max_charvar_length form_data db =
     (case confirm_table_schema max_charvar_length form_data db of
        (Some e, db1, log1) \<Rightarrow> (Some e, db1, log1)
      | (None, db1, log1) \<Rightarrow>
         (case confirm_table_columns max_charvar_length form_data db1 of
            (r, db2, log2) \<Rightarrow> (r, db2, log1 @ log2)))"




subsection \<open>Case tables\<close>

text \<open>
  The statement \<^verbatim>\<open>create_case_table\<close> builds: \<^verbatim>\<open>id\<close> and \<^verbatim>\<open>imported_on\<close>, then
  \<^verbatim>\<open>properties[1:-1]\<close> and \<^verbatim>\<open>properties[-1]\<close> as \<^verbatim>\<open>TEXT\<close>.
\<close>

definition create_case_sql :: "case_data \<Rightarrow> error + statement" where
  "create_case_sql cd =
     (case properties cd of
        [] \<Rightarrow> Inl IndexError
      | p # ps \<Rightarrow>
         Inr (CreateTable (case_table cd)
                ([(''id'', VarChar 255), (''imported_on'', Timestamp)] @
                 map (\<lambda>column. (column, Text)) (butlast ps) @
                 [(last (p # ps), Text)])))"

definition create_case_table :: "case_data \<Rightarrow> connection \<Rightarrow> (error \<times> connection) + connection" where
  "create_case_table cd c =
     (case create_case_sql cd of
        Inl e \<Rightarrow> Inl (e, c)
      | Inr create_sql \<Rightarrow> execute create_sql c)"

definition confirm_case_table_schema ::
  "case_data \<Rightarrow> database \<Rightarrow> error option \<times> database \<times> statement list" where
  "confirm_case_table_schema cd db =
     (let c = connect db
      in case live c (case_table cd) of
           Some _ \<Rightarrow> finish (Inr c)
         | None \<Rightarrow>
            (case create_case_table cd c of
               Inl e \<Rightarrow> finish (Inl e)
             | Inr c1 \<Rightarrow> finish (Inr (commit c1))))"

text \<open>
  The body of the loop of \<^verbatim>\<open>confirm_case_table_columns\<close>: a property without a column
  gets one, \<^verbatim>\<open>boolean DEFAULT FALSE\<close> for \<^verbatim>\<open>closed\<close> and \<^verbatim>\<open>TEXT\<close> otherwise, and the
  transaction is committed.
\<close>

definition sync_case_column ::
  "string \<Rightarrow> string \<Rightarrow> connection \<Rightarrow> (error \<times> connection) + connection" where
  "sync_case_column t property_name c =
     (case column_type c t property_name of
        Some _ \<Rightarrow> Inr c
      | None \<Rightarrow>
         (case execute (AddColumn t property_name
                          (if property_name = ''closed'' then Boolean else Text)) c of
            Inl e \<Rightarrow> Inl e
          | Inr c1 \<Rightarrow> Inr (commit c1)))"

fun sync_case_columns ::
  "string \<Rightarrow> string list \<Rightarrow> string list \<Rightarrow> connection
     \<Rightarrow> (error \<times> connection) + (string list \<times> connection)" where
  "sync_case_columns t [] existing_column_list c = Inr (existing_column_list, c)"
| "sync_case_columns t (property_name # ps) existing_column_list c =
     (case sync_case_column t property_name c of
        Inl e \<Rightarrow> Inl e
      | Inr c1 \<Rightarrow> sync_case_columns t ps (remove1 property_name existing_column_list) c1)"

text \<open>
  \<^verbatim>\<open>confirm_case_table_columns\<close>: the live columns other than \<^verbatim>\<open>imported_on\<close>, \<^verbatim>\<open>id\<close> and
  \<^verbatim>\<open>closed\<close> are listed; four fixed names are appended to the properties; each gets
  its column; the rest of the list is dropped.
\<close>

definition confirm_case_table_columns ::
  "case_data \<Rightarrow> database \<Rightarrow> error option \<times> database \<times> statement list" where
  "confirm_case_table_columns case_info db =
     (let c = connect db;
          t = case_table case_info;
          existing_column_list =
            (case live c t of
               None \<Rightarrow> []
             | Some cols \<Rightarrow>
                filter (\<lambda>k. k \<noteq> ''imported_on'' \<and> k \<noteq> ''id'' \<and> k \<noteq> ''closed'')
                  (map fst cols));
          props = properties case_info @
                    [''imported_on'', ''opened_date'', ''closed'', ''owner_id'']
      in case sync_case_columns t props existing_column_list c of
           Inl e \<Rightarrow> finish (Inl e)
         | Inr (legacy, c1) \<Rightarrow>
            (case drop_columns t legacy c1 of
               Inl e \<Rightarrow> finish (Inl e)
             | Inr c2 \<Rightarrow> finish (Inr (commit c2))))"

text \<open>One reconciliation of a case table, as \<^verbatim>\<open>generate_case_model\<close> runs it.\<close>

definition reconcile_case ::
  "case_data \<Rightarrow> database \<Rightarrow> error option \<times> database \<times> statement list" where
  "reconcile_case case_info db =
     (case confirm_case_table_schema case_info db of
        (Some e, db1, log1) \<Rightarrow> (Some e, db1, log1)
      | (None, db1, log1) \<Rightarrow>
         (case confirm_case_table_columns case_info db1 of
            (r, db2, log2) \<Rightarrow> (r, db2, log1 @ log2)))"

section \<open>Properties of the sheet names\<close>

lemmas name_eval =
  compress_def strip_sheet_name_def replace_words_def chop_pass_def chop_loop.simps
  rename_loop.simps str_of_nat.simps lower_def lower_char_def char_of_def bit_0 Let_def

text \<open>The name the renaming loop returns is not in the list it was checked against.\<close>

lemma rename_loop_fresh: "rename_loop names k s \<notin> set names"
proof (induction names k s rule: rename_loop.induct)
  case (1 names k s)
  show ?case
  proof (cases "s \<in> set names")
    case True
    with 1 show ?thesis by (subst rename_loop.simps) simp
  next
    case False
    then show ?thesis by (subst rename_loop.simps) simp
  qed
qed

text \<open>
  The word-cutting loop returns its argument after some number of passes, every
  candidate before the last being longer than 31; and what it returns is within the
  bound or is left unchanged by a further pass.
\<close>

lemma chop_loop_passes:
  "\<exists>n. chop_loop last_name s = (chop_pass ^^ n) s \<and>
       (\<forall>k<n. 31 < length ((chop_pass ^^ k) s))"
proof (induction last_name s rule: chop_loop.induct)
  case (1 last_name s)
  show ?case
  proof (cases "length s > 31 \<and> Some s \<noteq> last_name")
    case True
    then have u: "chop_loop last_name s = chop_loop (Some s) (chop_pass s)"
      by (subst chop_loop.simps) simp
    from 1 [OF True] obtain n where
      n: "chop_loop (Some s) (chop_pass s) = (chop_pass ^^ n) (chop_pass s)"
         "\<forall>k<n. 31 < length ((chop_pass ^^ k) (chop_pass s))"
      by blast
    have "chop_loop last_name s = (chop_pass ^^ Suc n) s"
      using u n(1) by (simp add: funpow_swap1)
    moreover have "\<forall>k<Suc n. 31 < length ((chop_pass ^^ k) s)"
    proof (intro allI impI)
      fix k assume k: "k < Suc n"
      show "31 < length ((chop_pass ^^ k) s)"
      proof (cases k)
        case 0
        with True show ?thesis by simp
      next
        case (Suc j)
        with k n(2) show ?thesis by (simp add: funpow_swap1)
      qed
    qed
    ultimately show ?thesis by blast
  next
    case False
    then have "chop_loop last_name s = (chop_pass ^^ 0) s"
      by (subst chop_loop.simps) auto
    then show ?thesis by blast
  qed
qed

lemma chop_loop_result:
  assumes "\<forall>p. last_name = Some p \<longrightarrow> s = chop_pass p"
  shows "length (chop_loop last_name s) \<le> 31 \<or>
         chop_pass (chop_loop last_name s) = chop_loop last_name s"
  using assms
proof (induction last_name s rule: chop_loop.induct)
  case (1 last_name s)
  show ?case
  proof (cases "length s > 31 \<and> Some s \<noteq> last_name")
    case True
    then have "chop_loop last_name s = chop_loop (Some s) (chop_pass s)"
      by (subst chop_loop.simps) simp
    moreover from 1(1) [OF True]
    have "length (chop_loop (Some s) (chop_pass s)) \<le> 31 \<or>
        chop_pass (chop_loop (Some s) (chop_pass s)) = chop_loop (Some s) (chop_pass s)"
      by simp
    ultimately show ?thesis by simp
  next
    case False
    then have r: "chop_loop last_name s = s"
      by (subst chop_loop.simps) auto
    from False 1(2) have "length s \<le> 31 \<or> chop_pass s = s" by auto
    with r show ?thesis by simp
  qed
qed

text \<open>
  Claim C7, as the code has it. The chain is entered only for a candidate longer than
  31: a candidate within the bound is returned as it is. Inside \<^verbatim>\<open>strip_sheet_name\<close> the
  four replacements (\<open>and\<close> to \<open>&\<close>, parentheses removed, \<open>enrollment\<close> to \<open>enroll\<close>,
  \<open>change\<close> to \<open>chng\<close>) are all applied, in this order, whatever length the name has
  in between. Only the cutting of words looks at the length: the result is the replaced
  name after \<open>n\<close> cutting passes, every candidate before the last was longer than 31, and
  the result is within the bound or a further pass would not change it.
\<close>

theorem shortening_chain:
  "(length c \<le> 31 \<longrightarrow> compress c b = Inr c) \<and>
   (\<exists>n. strip_sheet_name s =
          (chop_pass ^^ n)
            (replace_str ''change'' ''chng''
              (replace_str ''enrollment'' ''enroll''
                (replace_str '')'' ''''
                  (replace_str ''('' ''''
                    (replace_str ''and'' ''&'' s))))) \<and>
        (\<forall>k<n. 31 < length ((chop_pass ^^ k) (replace_words s)))) \<and>
   (length (strip_sheet_name s) \<le> 31 \<or> chop_pass (strip_sheet_name s) = strip_sheet_name s)"
proof -
  have a: "length c \<le> 31 \<longrightarrow> compress c b = Inr c"
    by (simp add: compress_def)
  have b: "\<exists>n. strip_sheet_name s = (chop_pass ^^ n) (replace_words s) \<and>
        (\<forall>k<n. 31 < length ((chop_pass ^^ k) (replace_words s)))"
    using chop_loop_passes [of None "replace_words s"] by (simp add: strip_sheet_name_def)
  have c: "length (strip_sheet_name s) \<le> 31 \<or>
      chop_pass (strip_sheet_name s) = strip_sheet_name s"
    using chop_loop_result [of None "replace_words s"] by (simp add: strip_sheet_name_def)
  from a b c show ?thesis unfolding replace_words_def by blast
qed

theorem shortening_chain_witness:
  "length ''visit_form'' \<le> 31 \<and> compress ''visit_form'' ''visit_form'' = Inr ''visit_form'' \<and>
   (length (strip_sheet_name ''household_enrollment_and_registration_followup_form'') \<le> 31 \<or>
    chop_pass (strip_sheet_name ''household_enrollment_and_registration_followup_form'') =
      strip_sheet_name ''household_enrollment_and_registration_followup_form'')"
  using shortening_chain [of "''visit_form''" "''visit_form''"
      "''household_enrollment_and_registration_followup_form''"]
  by simp

text \<open>
  Claim C7 as stated fails: this candidate has 33 characters, replacing \<open>and\<close> brings it
  to 31, and \<open>change\<close> is replaced all the same.
\<close>

theorem shortening_chain_counterexample:
  "31 < length ''sand_change_aaaaaaaaaaaaaaaaaaaaa'' \<and>
   length (replace_str ''and'' ''&'' ''sand_change_aaaaaaaaaaaaaaaaaaaaa'') \<le> 31 \<and>
   replace_str ''and'' ''&'' ''sand_change_aaaaaaaaaaaaaaaaaaaaa''
     = ''s&_change_aaaaaaaaaaaaaaaaaaaaa'' \<and>
   compress ''sand_change_aaaaaaaaaaaaaaaaaaaaa'' ''sand_change_aaaaaaaaaaaaaaaaaaaaa''
     = Inr ''s&_chng_aaaaaaaaaaaaaaaaaaaaa''"
  by (simp add: name_eval)

text \<open>
  Claim C8. \<open>compress\<close> either returns a name of at most 31 characters, and then
  compressing that name again (with any fallback name) returns it unchanged, or it ends
  the run with \<open>SystemExit\<close>.
\<close>

theorem compress_idempotent_bounded:
  "(\<exists>y. compress x b = Inr y \<and> length y \<le> 31 \<and> (\<forall>b'. compress y b' = Inr y)) \<or>
   compress x b = Inl SystemExit"
  by (simp add: compress_def Let_def)

text \<open>
  Claim C9. Two forms named \<open>Patient Visit\<close> in one run, the list of table names empty
  at the start: the first table is \<open>patient_visit\<close>, the second \<open>patient_visi1\<close>.
\<close>

theorem patient_visit_twice:
  "rename_loop [] 0 ''patient_visit'' = ''patient_visit'' \<and>
   rename_loop [''patient_visit''] 0 ''patient_visit'' = ''patient_visi1'' \<and>
   (\<exists>sheet1 sheet2.
      generate_form_spreadsheet []
        (Node (new_question\<lparr>q_name := Some (Some ''Patient Visit''),
                 q_xmlns := Some (Some ''http://openrosa.org/formdesigner/A1'')\<rparr>) [] [] [])
        False '''' = Inr (sheet1, [''patient_visit'']) \<and>
      table_target sheet1 = ''patient_visit'' \<and>
      generate_form_spreadsheet [''patient_visit'']
        (Node (new_question\<lparr>q_name := Some (Some ''Patient Visit''),
                 q_xmlns := Some (Some ''http://openrosa.org/formdesigner/B2'')\<rparr>) [] [] [])
        False '''' = Inr (sheet2, [''patient_visit'', ''patient_visi1'']) \<and>
      table_target sheet2 = ''patient_visi1'')"
  by (simp add: name_eval new_question_def create_form_spreadsheet_def)

text \<open>
  Claim C6, at the input where it fails. Two case types that differ only in case go
  through \<^verbatim>\<open>generate_case_spreadsheet\<close>, which does not look at the list before it
  appends: both tables get the name \<open>case_patient\<close>. (The form path does look:
  \<open>rename_loop_fresh\<close>.)
\<close>

theorem case_names_not_disambiguated:
  "generate_case_spreadsheets []
     [\<lparr>case_name = ''Patient'', properties = [''age'']\<rparr>,
      \<lparr>case_name = ''patient'', properties = [''dob'']\<rparr>]
   = Inr [''case_patient'', ''case_patient'']"
  by (simp add: generate_case_spreadsheet_def case_sheet_name_def name_eval)

section \<open>Properties of the form tree\<close>

lemmas tree_eval =
  new_question_def form_obj_def add_question_def resolve_parent_name_def truthy_def
  place_question_def Let_def

text \<open>The tree changes exactly when \<^verbatim>\<open>find_parent\<close> finds the parent.\<close>

lemma update_parent_None:
  "(update_parent f parent_name n = None) = (find_parent n parent_name = None)"
  "(update_parent_list f parent_name ns = None) = (find_parent_list ns parent_name = None)"
proof (induction n parent_name and ns parent_name rule: find_parent_find_parent_list.induct)
  case (1 i gs ls qs parent_name)
  show ?case
  proof (cases "q_value i = parent_name")
    case True
    then show ?thesis by simp
  next
    case False
    with 1 show ?thesis by (auto split: option.splits)
  qed
next
  case (2 parent_name)
  show ?case by simp
next
  case (3 x xs parent_name)
  then show ?case by (auto split: option.splits)
qed

text \<open>A question of type \<^verbatim>\<open>Trigger\<close> leaves the tree as it was.\<close>

lemma add_question_Trigger:
  "q_type new_q = Some (Some ''Trigger'') \<Longrightarrow> add_question form new_q = Inr form"
  by (simp add: add_question_def)

text \<open>
  Claim C1, at the input where it fails. A question that carries only a loop hint:
  \<^verbatim>\<open>parent_name\<close> stays \<^verbatim>\<open>None\<close>, which is the \<^verbatim>\<open>value\<close> of the form itself, and the
  question is appended to the questions of the form, not to those of the loop
  \<open>/data/visits\<close> it names.
\<close>

theorem loop_only_hint_attaches_to_root:
  "resolve_parent_name (new_question\<lparr>q_loop_member := Some ''/data/visits''\<rparr>) = None \<and>
   add_questions form_obj
     [new_question\<lparr>q_group := True, q_value := Some ''/data/visits'',
        q_id := Some ''visits'', q_type := Some (Some ''Repeat'')\<rparr>,
      new_question\<lparr>q_loop_member := Some ''/data/visits'',
        q_value := Some ''/data/visits/age'', q_id := Some ''visits/age'',
        q_type := Some (Some ''Int'')\<rparr>]
   = Inr (Node new_question []
       [Node (new_question\<lparr>q_group := True, q_value := Some ''/data/visits'',
                q_id := Some ''visits'', q_type := Some (Some ''Repeat'')\<rparr>) [] [] []]
       [Node (new_question\<lparr>q_loop_member := Some ''/data/visits'',
                q_value := Some ''/data/visits/age'', q_id := Some ''visits/age'',
                q_type := Some (Some ''Int'')\<rparr>) [] [] []])"
  by (simp add: tree_eval)

text \<open>
  Claim C2, at the input where it fails. A question of type \<^verbatim>\<open>Repeat\<close> that is not
  marked as a group passes the second and the third \<^verbatim>\<open>if\<close>: it is appended to the loops
  and to the questions of its parent.
\<close>

theorem ungrouped_repeat_placed_twice:
  "add_question form_obj
     (new_question\<lparr>q_value := Some ''/data/visits'', q_id := Some ''visits'',
        q_type := Some (Some ''Repeat'')\<rparr>)
   = Inr (Node new_question []
       [Node (new_question\<lparr>q_value := Some ''/data/visits'', q_id := Some ''visits'',
                q_type := Some (Some ''Repeat'')\<rparr>) [] [] []]
       [Node (new_question\<lparr>q_value := Some ''/data/visits'', q_id := Some ''visits'',
                q_type := Some (Some ''Repeat'')\<rparr>) [] [] []])"
  by (simp add: tree_eval)

section \<open>Properties of the flattening\<close>

lemmas sheet_eval =
  create_form_spreadsheet_def fixed_columns_def auto_column_def db_column_name_def
  question_column_def new_question_def

text \<open>
  Claim C3, at the input where it fails. A loop directly under the form gets its child
  table, appended to the children of the form's table. The same loop inside a group of
  the form gets none: \<^verbatim>\<open>get_group_questions\<close> raises \<open>AttributeError\<close> and the run ends.
\<close>

theorem loop_inside_group_raises:
  "map_sum id (\<lambda>(s, names). (map table_target (children s), names))
     (generate_form_spreadsheet []
        (Node (new_question\<lparr>q_name := Some (Some ''Visit''),
                 q_xmlns := Some (Some ''http://openrosa.org/formdesigner/A1'')\<rparr>)
           []
           [Node (new_question\<lparr>q_group := True, q_value := Some ''/data/meds'',
                    q_id := Some ''meds'', q_type := Some (Some ''Repeat'')\<rparr>) [] [] []]
           [])
        False '''')
   = Inr ([''visit_meds''], [''visit'', ''visit_meds'']) \<and>
   generate_form_spreadsheet []
     (Node (new_question\<lparr>q_name := Some (Some ''Visit''),
              q_xmlns := Some (Some ''http://openrosa.org/formdesigner/A1'')\<rparr>)
        [Node (new_question\<lparr>q_group := True, q_value := Some ''/data/history'',
                 q_id := Some ''history'', q_type := Some (Some ''Group'')\<rparr>)
           []
           [Node (new_question\<lparr>q_group := True, q_value := Some ''/data/history/meds'',
                    q_id := Some ''history/meds'', q_type := Some (Some ''Repeat'')\<rparr>) [] [] []]
           []]
        [] [])
     False ''''
   = Inl (AttributeError ''generate_spreadsheets'')"
  by (simp add: sheet_eval name_eval)

section \<open>Properties of the reconciliation\<close>

lemmas db_eval =
  reconcile_def confirm_table_columns_def confirm_table_schema_def sync_column_def
  column_type_def create_table_def connect_def commit_def ran_def alter_id_def Let_def
  auto_column_def

text \<open>
  Claim C4. The live table has the columns \<open>id\<close> (a \<^verbatim>\<open>VARCHAR\<close> of any length, as
  \<^verbatim>\<open>create_table\<close> declares it), \<open>imported_on\<close> and \<open>old_field\<close>; the specification
  lists \<open>id\<close>, \<open>received_on\<close> and \<open>new_field\<close>. One reconciliation returns normally and leaves exactly \<open>id\<close>, \<open>imported_on\<close>, \<open>received_on\<close> and \<open>new_field\<close>: the
  two missing columns were added and \<open>old_field\<close> was dropped (\<open>id\<close> was widened first if
  it was shorter than the configured length).
\<close>

theorem column_diff_scenario:
  "reconcile m
     (Sheet nm file t
        [auto_column ''id'' ''id'', auto_column ''recieved_on'' ''received_on'',
         \<lparr>question_id = ''new_field'', question_text = txt, question_type = ty,
          database_column = ''new_field'', calculation = calc\<rparr>] kids)
     (db(t \<mapsto> [(''id'', VarChar n), (''imported_on'', ty1), (''old_field'', ty2)]))
   = (None,
      db(t \<mapsto> [(''id'', VarChar (max n m)), (''imported_on'', ty1),
               (''received_on'', Text), (''new_field'', Text)]),
      (if n < m then [AlterIdType t m] else []) @
      [AddColumn t ''received_on'' Text, AddColumn t ''new_field'' Text,
       DropColumn t ''old_field''])"
  by (simp add: db_eval max_def)

theorem column_diff_scenario_witness:
  "\<exists>db1 log. reconcile 255
     (Sheet ''Visit'' ''visit.xlsx'' ''visit''
        [auto_column ''id'' ''id'', auto_column ''recieved_on'' ''received_on'',
         \<lparr>question_id = ''new_field'', question_text = None, question_type = Some ''Text'',
          database_column = ''new_field'', calculation = None\<rparr>] [])
     (Map.empty(''visit'' \<mapsto>
        [(''id'', VarChar 255), (''imported_on'', Timestamp), (''old_field'', Text)]))
   = (None, db1, log) \<and>
   map_option (set \<circ> map fst) (db1 ''visit'')
     = Some {''id'', ''imported_on'', ''received_on'', ''new_field''}"
  using column_diff_scenario [of 255 "''Visit''" "''visit.xlsx''" "''visit''" None "Some ''Text''"
      None "[]" Map.empty 255 Timestamp Text]
  by simp

subsection \<open>A second reconciliation changes nothing\<close>








lemma names_filter:
  "set (map fst (filter (\<lambda>(k, ty). k \<notin> S) cols)) = set (map fst cols) - S"
  by (induction cols) auto




lemma set_fold_remove1:
  assumes "distinct ex"
  shows "set (fold remove1 cs ex) = set ex - set cs \<and> distinct (fold remove1 cs ex)"
  using assms by (induction cs arbitrary: ex) auto

lemma drop_columns_post:
  assumes "drop_columns t xs c = Inr c'" and "live c t = Some cols"
  shows "live c' t = Some (filter (\<lambda>(k, ty). k \<notin> set xs) cols)"
  using assms
proof (induction xs arbitrary: c cols)
  case Nil
  then show ?case by simp
next
  case (Cons x xs)
  from Cons.prems obtain c1 where
    e: "execute (DropColumn t x) c = Inr c1" and r: "drop_columns t xs c1 = Inr c'"
    by (auto split: sum.splits)
  from e Cons.prems(2) have l1: "live c1 t = Some (filter (\<lambda>(k, ty). k \<noteq> x) cols)"
    by (auto simp: ran_def split: if_splits)
  from Cons.IH [OF r l1] show ?case
    by (simp add: case_prod_unfold conj_commute)
qed












lemma drop_columns_ok:
  assumes "live c t = Some cols" and "distinct xs" and "set xs \<subseteq> set (map fst cols)"
  shows "\<exists>c'. drop_columns t xs c = Inr c'"
  using assms
proof (induction xs arbitrary: c cols)
  case Nil
  show ?case by simp
next
  case (Cons x xs)
  let ?cols1 = "filter (\<lambda>(k, ty). k \<noteq> x) cols"
  let ?c1 = "ran (DropColumn t x) t ?cols1 c"
  have e: "execute (DropColumn t x) c = Inr ?c1"
    using Cons.prems by auto
  have l1: "live ?c1 t = Some ?cols1" by (simp add: ran_def)
  have "set xs \<subseteq> set (map fst ?cols1)"
    using Cons.prems(2,3) by (auto simp: image_iff) force
  from Cons.IH [OF l1 _ this] Cons.prems(2) e show ?case by auto
qed




text \<open>
  Two runs at the edge of the claim. When \<^verbatim>\<open>id\<close> is missing from the live table it is
  added as \<^verbatim>\<open>TEXT\<close>; the next run then raises at the length comparison, having executed
  nothing. And a run that raises after it has widened \<^verbatim>\<open>id\<close> commits nothing: the
  database stays as it was, and a repeated run sends the same widening again, to be
  rolled back again.
\<close>

lemma second_run_may_raise:
  "reconcile 255
     (Sheet ''Visit'' ''visit.xlsx'' ''visit''
        [auto_column ''id'' ''id'', auto_column ''recieved_on'' ''received_on''] [])
     (Map.empty(''visit'' \<mapsto> [(''imported_on'', Timestamp), (''received_on'', Text)]))
   = (None,
      Map.empty(''visit'' \<mapsto>
        [(''imported_on'', Timestamp), (''received_on'', Text), (''id'', Text)]),
      [AddColumn ''visit'' ''id'' Text]) \<and>
   reconcile 255
     (Sheet ''Visit'' ''visit.xlsx'' ''visit''
        [auto_column ''id'' ''id'', auto_column ''recieved_on'' ''received_on''] [])
     (Map.empty(''visit'' \<mapsto>
        [(''imported_on'', Timestamp), (''received_on'', Text), (''id'', Text)]))
   = (Some TypeError,
      Map.empty(''visit'' \<mapsto>
        [(''imported_on'', Timestamp), (''received_on'', Text), (''id'', Text)]),
      [])"
  by (simp add: db_eval)

lemma raising_run_rolls_back_widening:
  "reconcile 255
     (Sheet ''Visit'' ''visit.xlsx'' ''visit''
        [auto_column ''id'' ''id'', auto_column ''imported_on'' ''imported_on''] [])
     (Map.empty(''visit'' \<mapsto> [(''id'', VarChar 10), (''imported_on'', Timestamp)]))
   = (Some DatabaseError,
      Map.empty(''visit'' \<mapsto> [(''id'', VarChar 10), (''imported_on'', Timestamp)]),
      [AlterIdType ''visit'' 255])"
  by (simp add: db_eval)

text \<open>
  Claim C10. With no property, \<^verbatim>\<open>create_case_table\<close> raises \<open>IndexError\<close> while it
  builds the statement, and \<^verbatim>\<open>confirm_case_table_schema\<close> on a database without the table
  ends with that error, nothing executed and the database unchanged. With at least one
  property the statement is built: the table's name, \<open>id\<close> and \<open>imported_on\<close>, and one
  \<open>TEXT\<close> column for the single property, or for every property but the first when there
  are several.
\<close>

theorem create_case_table_needs_property:
  "(properties cd = [] \<longrightarrow>
      create_case_sql cd = Inl IndexError \<and>
      (db (case_table cd) = None \<longrightarrow>
         confirm_case_table_schema cd db = (Some IndexError, db, []))) \<and>
   (properties cd \<noteq> [] \<longrightarrow>
      create_case_sql cd =
        Inr (CreateTable (case_table cd)
               ([(''id'', VarChar 255), (''imported_on'', Timestamp)] @
                map (\<lambda>p. (p, Text))
                  (if length (properties cd) = 1 then properties cd
                   else tl (properties cd)))))"
proof (cases "properties cd")
  case Nil
  then show ?thesis
    by (simp add: create_case_sql_def confirm_case_table_schema_def create_case_table_def
          connect_def Let_def)
next
  case (Cons p ps)
  show ?thesis
  proof (cases "ps = []")
    case True
    with Cons show ?thesis by (simp add: create_case_sql_def)
  next
    case False
    then have "map (\<lambda>p. (p, Text)) ps =
        map (\<lambda>p. (p, Text)) (butlast ps) @ [(last ps, Text)]"
      by (metis (no_types, lifting) append_butlast_last_id list.simps(8,9) map_append)
    with Cons False show ?thesis by (simp add: create_case_sql_def)
  qed
qed

theorem create_case_table_needs_property_witness:
  "create_case_sql \<lparr>case_name = ''household'', properties = [], case_table = ''case_household''\<rparr>
     = Inl IndexError \<and>
   confirm_case_table_schema
     \<lparr>case_name = ''household'', properties = [], case_table = ''case_household''\<rparr> Map.empty
     = (Some IndexError, Map.empty, []) \<and>
   create_case_sql
     \<lparr>case_name = ''patient'', properties = [''name'', ''age'', ''village''],
      case_table = ''case_patient''\<rparr>
     = Inr (CreateTable ''case_patient''
              [(''id'', VarChar 255), (''imported_on'', Timestamp),
               (''age'', Text), (''village'', Text)])"
  using create_case_table_needs_property
      [of "\<lparr>case_name = ''household'', properties = [], case_table = ''case_household''\<rparr>"
          Map.empty]
    create_case_table_needs_property
      [of "\<lparr>case_name = ''patient'', properties = [''name'', ''age'', ''village''],
            case_table = ''case_patient''\<rparr>" Map.empty]
  by simp

subsection \<open>Case tables converge as well\<close>

text \<open>
  The same holds on the case path, where the loop never raises once the table exists:
  after one reconciliation a second one executes no statement and leaves the database
  as it found it.
\<close>

lemma sync_case_column_post:
  assumes tbl: "live c t = Some cols" and dist: "distinct (map fst cols)"
  shows "\<exists>c' cols'. sync_case_column t p c = Inr c' \<and> live c' t = Some cols' \<and>
           distinct (map fst cols') \<and> set (map fst cols') = insert p (set (map fst cols))"
proof (cases "map_of cols p")
  case None
  then have "p \<notin> set (map fst cols)" by (simp add: map_of_eq_None_iff)
  with tbl None dist show ?thesis
    by (auto simp: sync_case_column_def column_type_def commit_def ran_def)
next
  case (Some ty)
  then have "p \<in> set (map fst cols)"
    by (metis map_of_eq_None_iff option.distinct(1) set_map)
  with tbl Some dist show ?thesis
    by (auto simp: sync_case_column_def column_type_def)
qed

lemma sync_case_columns_post:
  assumes "live c t = Some cols" and "distinct (map fst cols)"
  shows "\<exists>c' cols'. sync_case_columns t ps ex c = Inr (fold remove1 ps ex, c') \<and>
           live c' t = Some cols' \<and> distinct (map fst cols') \<and>
           set (map fst cols') = set (map fst cols) \<union> set ps"
  using assms
proof (induction ps arbitrary: ex c cols)
  case Nil
  then show ?case by simp
next
  case (Cons p ps)
  from sync_case_column_post [OF Cons.prems, of p] obtain c1 cols1 where
    r: "sync_case_column t p c = Inr c1" and l1: "live c1 t = Some cols1" and
    d1: "distinct (map fst cols1)" and n1: "set (map fst cols1) = insert p (set (map fst cols))"
    by blast
  from Cons.IH [OF l1 d1, of "remove1 p ex"] obtain c' cols' where
    "sync_case_columns t ps (remove1 p ex) c1 = Inr (fold remove1 ps (remove1 p ex), c')"
    "live c' t = Some cols'" "distinct (map fst cols')"
    "set (map fst cols') = set (map fst cols1) \<union> set ps"
    by blast
  with r n1 show ?case by auto
qed

lemma sync_case_columns_noop:
  assumes "live c t = Some cols" and "set ps \<subseteq> set (map fst cols)"
  shows "sync_case_columns t ps ex c = Inr (fold remove1 ps ex, c)"
  using assms
proof (induction ps arbitrary: ex)
  case Nil
  show ?case by simp
next
  case (Cons p ps)
  from Cons.prems have "map_of cols p \<noteq> None" by (simp add: map_of_eq_None_iff)
  with Cons.prems(1) have "sync_case_column t p c = Inr c"
    by (auto simp: sync_case_column_def column_type_def)
  with Cons show ?case by simp
qed

lemma confirm_case_table_columns_twice:
  assumes tbl: "db (case_table cd) = Some cols" and dist: "distinct (map fst cols)"
  shows "\<exists>db1 log1. confirm_case_table_columns cd db = (None, db1, log1) \<and>
           confirm_case_table_columns cd db1 = (None, db1, []) \<and>
           db1 (case_table cd) \<noteq> None"
proof -
  let ?t = "case_table cd"
  let ?ps = "properties cd @ [''imported_on'', ''opened_date'', ''closed'', ''owner_id'']"
  let ?keep = "\<lambda>k. k \<noteq> ''imported_on'' \<and> k \<noteq> ''id'' \<and> k \<noteq> ''closed''"
  let ?ex = "filter ?keep (map fst cols)"
  let ?c = "connect db"
  have lc: "live ?c ?t = Some cols" using tbl by (simp add: connect_def)
  define legacy where "legacy = fold remove1 ?ps ?ex"
  from sync_case_columns_post [OF lc dist, of ?ps ?ex] obtain c1 cols' where
    s: "sync_case_columns ?t ?ps ?ex ?c = Inr (legacy, c1)" and
    l': "live c1 ?t = Some cols'" and d': "distinct (map fst cols')" and
    n': "set (map fst cols') = set (map fst cols) \<union> set ?ps"
    unfolding legacy_def by blast
  have dex: "distinct ?ex" using dist by simp
  from set_fold_remove1 [OF dex, of ?ps]
  have dl: "distinct legacy" and sl: "set legacy = set ?ex - set ?ps"
    unfolding legacy_def by simp_all
  have sub: "set legacy \<subseteq> set (map fst cols')" using sl n' by auto
  from drop_columns_ok [OF l' dl sub] obtain c2 where d: "drop_columns ?t legacy c1 = Inr c2"
    by blast
  define cols2 where "cols2 = filter (\<lambda>(k, ty). k \<notin> set legacy) cols'"
  have l2: "live c2 ?t = Some cols2"
    unfolding cols2_def by (rule drop_columns_post [OF d l'])
  let ?db1 = "live c2"
  have run1: "confirm_case_table_columns cd db = (None, ?db1, issued c2)"
    using s d tbl by (simp add: confirm_case_table_columns_def Let_def connect_def commit_def)
  have nm2: "set (map fst cols2) = set (map fst cols') - set legacy"
    unfolding cols2_def by (rule names_filter)
  have sex: "set ?ex = {k \<in> set (map fst cols). ?keep k}" by auto
  have all2: "set ?ps \<subseteq> set (map fst cols2)"
    using nm2 n' sl by blast
  have d2: "distinct (map fst cols2)"
    unfolding cols2_def using d' by (simp add: distinct_map_filter)
  let ?ex2 = "filter ?keep (map fst cols2)"
  have "set ?ex2 = {k \<in> set (map fst cols2). ?keep k}" by auto
  also have "\<dots> \<subseteq> set ?ps" using nm2 n' sl sex by blast
  finally have sub2: "set ?ex2 \<subseteq> set ?ps" .
  have dex2: "distinct ?ex2" using d2 by simp
  have "set (fold remove1 ?ps ?ex2) = set ?ex2 - set ?ps"
    by (rule conjunct1 [OF set_fold_remove1 [OF dex2]])
  also have "\<dots> = {}" using sub2 by blast
  finally have empty: "fold remove1 ?ps ?ex2 = []" by simp
  let ?c' = "connect ?db1"
  have lc': "live ?c' ?t = Some cols2" using l2 by (simp add: connect_def)
  from sync_case_columns_noop [OF lc' all2, of ?ex2]
  have "sync_case_columns ?t ?ps ?ex2 ?c' = Inr ([], ?c')" using empty by simp
  then have run2: "confirm_case_table_columns cd ?db1 = (None, ?db1, [])"
    using l2 by (simp add: confirm_case_table_columns_def Let_def connect_def commit_def)
  from run1 run2 l2 show ?thesis by auto
qed

lemma reconcile_case_idempotent:
  assumes wf: "\<forall>cols. db (case_table cd) = Some cols \<longrightarrow> distinct (map fst cols)"
    and run: "reconcile_case cd db = (r1, db1, log1)"
  shows "\<exists>r2. reconcile_case cd db1 = (r2, db1, [])"
proof -
  let ?t = "case_table cd"
  obtain r0 db0 log0 where sch: "confirm_case_table_schema cd db = (r0, db0, log0)"
    by (cases "confirm_case_table_schema cd db") auto
  show ?thesis
  proof (cases r0)
    case (Some e)
    with sch have "db0 = db" "log0 = []"
      by (auto simp: confirm_case_table_schema_def Let_def connect_def create_case_table_def
               create_case_sql_def split: option.splits sum.splits list.splits if_splits)
    with sch Some run have "r1 = Some e" "db1 = db" "log1 = []"
      by (simp_all add: reconcile_case_def)
    with run show ?thesis by simp
  next
    case None
    have "\<exists>cols0. db0 ?t = Some cols0 \<and> distinct (map fst cols0)"
    proof (cases "db ?t")
      case (Some cols)
      with sch wf show ?thesis
        by (auto simp: confirm_case_table_schema_def Let_def connect_def)
    next
      case None
      with sch \<open>r0 = None\<close> show ?thesis
        by (auto simp: confirm_case_table_schema_def Let_def connect_def create_case_table_def
              create_case_sql_def commit_def ran_def split: list.splits sum.splits if_splits)
    qed
    then obtain cols0 where t0: "db0 ?t = Some cols0" and d0: "distinct (map fst cols0)"
      by blast
    from confirm_case_table_columns_twice [where db = db0 and cd = cd and cols = cols0, OF t0 d0] obtain db1' log1' where
      a: "confirm_case_table_columns cd db0 = (None, db1', log1')" and
      b: "confirm_case_table_columns cd db1' = (None, db1', [])" and
      ex: "db1' ?t \<noteq> None"
      by blast
    from sch None a run have eq: "db1 = db1'" by (simp add: reconcile_case_def)
    from ex have "confirm_case_table_schema cd db1' = (None, db1', [])"
      by (auto simp: confirm_case_table_schema_def Let_def connect_def)
    with b eq show ?thesis by (simp add: reconcile_case_def)
  qed
qed

end
